theory Spec2Isabelle
  imports Main "HOL-Library.AList" "HOL-Library.Word"
begin

section \<open>JavaScript values and errors\<close>

text \<open>
  The relay handles JSON request bodies and the JSON-shaped replies of the upstream
  services. A value is modelled as a JSON tree extended with \<open>undefined\<close>. An object is
  the list of its own properties in insertion order; a property is looked up by the first
  entry with that key. Strings are lists of code units below 256 (the Latin-1 range), so
  \<open>length\<close> is the \<open>.length\<close> of the source string. Numbers are the integers that a double
  holds exactly (magnitude up to \<open>2^53\<close>).
\<close>

datatype jsval =
    JUndefined
  | JNull
  | JBool bool
  | JNum int
  | JStr string
  | JArr "jsval list"
  | JObj "(string \<times> jsval) list"

text \<open>A thrown value: an \<open>Error\<close> object with its \<open>name\<close>, \<open>message\<close> and \<open>code\<close>.\<close>

datatype js_error = JsError (err_name: string) (err_message: string) (err_code: jsval)

definition Error :: "string \<Rightarrow> js_error" where
  "Error msg = JsError ''Error'' msg JUndefined"

definition TypeError :: "string \<Rightarrow> js_error" where
  "TypeError msg = JsError ''TypeError'' msg JUndefined"

text \<open>Truthiness, as tested by \<open>if (v)\<close>, \<open>!v\<close> and \<open>v || w\<close>.\<close>

fun truthy :: "jsval \<Rightarrow> bool" where
  "truthy JUndefined = False"
| "truthy JNull = False"
| "truthy (JBool b) = b"
| "truthy (JNum n) = (n \<noteq> 0)"
| "truthy (JStr s) = (s \<noteq> [])"
| "truthy (JArr _) = True"
| "truthy (JObj _) = True"

text \<open>
  Property read \<open>v.k\<close> for a key that is not a built-in of strings, numbers or arrays:
  it throws a \<open>TypeError\<close> on \<open>undefined\<close> and \<open>null\<close>, and is \<open>undefined\<close> where the
  property is absent.
\<close>

fun getProp :: "jsval \<Rightarrow> string \<Rightarrow> js_error + jsval" where
  "getProp JUndefined k =
     Inl (TypeError (''Cannot read properties of undefined (reading '' @ [CHR 0x27] @ k @ [CHR 0x27] @ '')''))"
| "getProp JNull k =
     Inl (TypeError (''Cannot read properties of null (reading '' @ [CHR 0x27] @ k @ [CHR 0x27] @ '')''))"
| "getProp (JObj fs) k = Inr (case map_of fs k of None \<Rightarrow> JUndefined | Some v \<Rightarrow> v)"
| "getProp _ k = Inr JUndefined"

text \<open>Optional chaining \<open>v?.k\<close>: \<open>undefined\<close> instead of the \<open>TypeError\<close>.\<close>

fun optprop :: "jsval \<Rightarrow> string \<Rightarrow> jsval" where
  "optprop (JObj fs) k = (case map_of fs k of None \<Rightarrow> JUndefined | Some v \<Rightarrow> v)"
| "optprop _ k = JUndefined"

section \<open>Sanitizer (utils.js)\<close>

text \<open>
  \<open>String.prototype.trim\<close> removes white space and line terminators from both ends.
  Below 256 these are TAB, LF, VT, FF, CR, SPACE and NBSP.
\<close>

definition isWhiteSpace :: "char \<Rightarrow> bool" where
  "isWhiteSpace c \<longleftrightarrow>
     c \<in> set [CHR 0x09, CHR 0x0A, CHR 0x0B, CHR 0x0C, CHR 0x0D, CHR 0x20, CHR 0xA0]"

definition trim :: "string \<Rightarrow> string" where
  "trim s = rev (dropWhile isWhiteSpace (rev (dropWhile isWhiteSpace s)))"

text \<open>
  \<open>String.prototype.toLowerCase\<close> on the Latin-1 range: \<open>A\<close>..\<open>Z\<close> and the accented
  capitals 0xC0..0xDE (without the multiplication sign 0xD7) move up by 32.
\<close>

definition lowerChar :: "char \<Rightarrow> char" where
  "lowerChar c =
     (let n = (of_char c :: nat)
      in if (65 \<le> n \<and> n \<le> 90) \<or> (192 \<le> n \<and> n \<le> 222 \<and> n \<noteq> 215)
         then char_of (n + 32) else c)"

definition toLowerCase :: "string \<Rightarrow> string" where
  "toLowerCase s = map lowerChar s"

text \<open>\<open>.replace(/[<>;&|]/g, '')\<close>: every character of the class is deleted.\<close>

definition removeSpecial :: "string \<Rightarrow> string" where
  "removeSpecial s = filter (\<lambda>c. c \<notin> set ''<>;&|'') s"

text \<open>\<open>.replace(/c/g, r)\<close> for a single literal character \<open>c\<close> and a replacement without \<open>$\<close>.\<close>

definition replaceChar :: "char \<Rightarrow> string \<Rightarrow> string \<Rightarrow> string" where
  "replaceChar c r s = concat (map (\<lambda>x. if x = c then r else [x]) s)"

text \<open>The constant \<open>sanitizedPrompt\<close> of \<open>sanitize\<close>: the six chained calls, in order.\<close>

definition sanitizedPrompt :: "string \<Rightarrow> string" where
  "sanitizedPrompt prompt =
     replaceChar (CHR ''>'') ''&gt;''
       (replaceChar (CHR ''<'') ''&lt;''
         (replaceChar (CHR ''&'') ''&amp;''
           (removeSpecial (toLowerCase (trim prompt)))))"

text \<open>
  \<open>sanitize(prompt)\<close>. On \<open>undefined\<close> and \<open>null\<close> the read of \<open>prompt.trim\<close> throws; any
  other prompt that is not a string has no \<open>trim\<close> method. Error messages are those of V8.
\<close>

fun sanitize :: "jsval \<Rightarrow> js_error + string" where
  "sanitize (JStr prompt) =
     (if length (sanitizedPrompt prompt) > 2048 then Inl (Error ''Prompt is too long'')
      else Inr (sanitizedPrompt prompt))"
| "sanitize JUndefined = Inl (TypeError ''Cannot read properties of undefined (reading 'trim')'')"
| "sanitize JNull = Inl (TypeError ''Cannot read properties of null (reading 'trim')'')"
| "sanitize _ = Inl (TypeError ''prompt.trim is not a function'')"

text \<open>
  The pipeline of the specification's steps 1 to 3 alone: trim, lowercase, strip. It is
  compared with \<open>sanitizedPrompt\<close> below.
\<close>

definition spec_strip_only :: "string \<Rightarrow> string" where
  "spec_strip_only prompt = removeSpecial (toLowerCase (trim prompt))"

fun spec_sanitize_no_escape :: "jsval \<Rightarrow> js_error + string" where
  "spec_sanitize_no_escape (JStr prompt) =
     (if length (spec_strip_only prompt) > 2048 then Inl (Error ''Prompt is too long'')
      else Inr (spec_strip_only prompt))"
| "spec_sanitize_no_escape JUndefined =
     Inl (TypeError ''Cannot read properties of undefined (reading 'trim')'')"
| "spec_sanitize_no_escape JNull = Inl (TypeError ''Cannot read properties of null (reading 'trim')'')"
| "spec_sanitize_no_escape _ = Inl (TypeError ''prompt.trim is not a function'')"

text \<open>The character class \<open>[0-9a-zA-Z._:-]\<close>.\<close>

definition isSessionChar :: "char \<Rightarrow> bool" where
  "isSessionChar c =
     (let n = (of_char c :: nat)
      in (48 \<le> n \<and> n \<le> 57) \<or> (97 \<le> n \<and> n \<le> 122) \<or> (65 \<le> n \<and> n \<le> 90)
         \<or> c \<in> set ''._:-'')"

text \<open>
  \<open>sanitizeSessionID(input)\<close>: \<open>input.replace(/[^0-9a-zA-Z._:-]/g, '')\<close>. On \<open>undefined\<close>
  and \<open>null\<close> the property read throws; any other value that is not a string has no
  \<open>replace\<close> method.
\<close>

fun sanitizeSessionID :: "jsval \<Rightarrow> js_error + string" where
  "sanitizeSessionID (JStr input) = Inr (filter isSessionChar input)"
| "sanitizeSessionID JUndefined =
     Inl (TypeError ''Cannot read properties of undefined (reading 'replace')'')"
| "sanitizeSessionID JNull =
     Inl (TypeError ''Cannot read properties of null (reading 'replace')'')"
| "sanitizeSessionID _ = Inl (TypeError ''input.replace is not a function'')"

text \<open>
  The session identifier invariant of the specification's data model: the pattern
  \<open>[0-9A-Za-z._:-]+\<close> and a length from 2 to 100.
\<close>

definition spec_session_invariant :: "string \<Rightarrow> bool" where
  "spec_session_invariant s \<longleftrightarrow>
     s \<noteq> [] \<and> list_all isSessionChar s \<and> 2 \<le> length s \<and> length s \<le> 100"

section \<open>Citation Resolver (retrieval.js)\<close>

text \<open>
  The conversion of a value to a string inside a template literal. Integers print in
  decimal (as JavaScript prints them below \<open>10^21\<close>); an array joins its elements with
  commas, \<open>undefined\<close> and \<open>null\<close> elements printing as nothing.
\<close>

fun digits :: "nat \<Rightarrow> string" where
  "digits n = (if n < 10 then [char_of (48 + n)] else digits (n div 10) @ [char_of (48 + n mod 10)])"

fun joinWith :: "string \<Rightarrow> string list \<Rightarrow> string" where
  "joinWith sep [] = []"
| "joinWith sep [x] = x"
| "joinWith sep (x # y # ys) = x @ sep @ joinWith sep (y # ys)"

fun toStr :: "jsval \<Rightarrow> string" where
  "toStr JUndefined = ''undefined''"
| "toStr JNull = ''null''"
| "toStr (JBool b) = (if b then ''true'' else ''false'')"
| "toStr (JNum n) = (if n < 0 then ''-'' @ digits (nat (- n)) else digits (nat n))"
| "toStr (JStr s) = s"
| "toStr (JArr xs) =
     joinWith '','' (map (\<lambda>x. if x = JUndefined \<or> x = JNull then [] else toStr x) xs)"
| "toStr (JObj fs) = ''[object Object]''"

text \<open>
  \<open>JSON.stringify(v)\<close> as it appears inside a template literal: a string is quoted, with
  the quotation mark, the backslash and the control characters escaped; an array prints
  \<open>undefined\<close> elements as \<open>null\<close>, an object leaves out the properties that are
  \<open>undefined\<close>; for \<open>undefined\<close> itself the literal shows \<open>undefined\<close>.
\<close>

definition hexDigit :: "nat \<Rightarrow> char" where
  "hexDigit n = (if n < 10 then char_of (48 + n) else char_of (87 + n))"

definition jsonEscape :: "char \<Rightarrow> string" where
  "jsonEscape c =
     (let n = (of_char c :: nat)
      in if c = CHR 0x22 then [CHR 0x5C, CHR 0x22]
         else if c = CHR 0x5C then [CHR 0x5C, CHR 0x5C]
         else if c = CHR 0x08 then [CHR 0x5C, CHR ''b'']
         else if c = CHR 0x09 then [CHR 0x5C, CHR ''t'']
         else if c = CHR 0x0A then [CHR 0x5C, CHR ''n'']
         else if c = CHR 0x0C then [CHR 0x5C, CHR ''f'']
         else if c = CHR 0x0D then [CHR 0x5C, CHR ''r'']
         else if n < 32
           then [CHR 0x5C, CHR ''u'', CHR ''0'', CHR ''0'', hexDigit (n div 16), hexDigit (n mod 16)]
         else [c])"

definition jsonQuote :: "string \<Rightarrow> string" where
  "jsonQuote s = [CHR 0x22] @ concat (map jsonEscape s) @ [CHR 0x22]"

fun jsonStringify :: "jsval \<Rightarrow> string" where
  "jsonStringify JUndefined = ''undefined''"
| "jsonStringify JNull = ''null''"
| "jsonStringify (JBool b) = (if b then ''true'' else ''false'')"
| "jsonStringify (JNum n) = (if n < 0 then ''-'' @ digits (nat (- n)) else digits (nat n))"
| "jsonStringify (JStr s) = jsonQuote s"
| "jsonStringify (JArr xs) =
     ''['' @ joinWith '','' (map (\<lambda>x. if x = JUndefined then ''null'' else jsonStringify x) xs) @ '']''"
| "jsonStringify (JObj fs) =
     ''{'' @ joinWith '',''
              (concat (map (\<lambda>kv. if snd kv = JUndefined then []
                                  else [jsonQuote (fst kv) @ '':'' @ jsonStringify (snd kv)]) fs))
         @ ''}''"

text \<open>A chain of property reads \<open>v.k1.k2...\<close>, stopping at the first one that throws.\<close>

fun getPath :: "jsval \<Rightarrow> string list \<Rightarrow> js_error + jsval" where
  "getPath v [] = Inr v"
| "getPath v (k # ks) = (case getProp v k of Inl e \<Rightarrow> Inl e | Inr w \<Rightarrow> getPath w ks)"

text \<open>
  The regular expression \<open>/^s3:\/\/([^\/]+)\/(.*)$/\<close> of \<open>parseS3Uri\<close>. The first group
  cannot contain a slash and is followed by one, so it is the run of characters up to the
  first slash; without the \<open>s\<close> flag the dot of the second group matches no line
  terminator, and without the \<open>m\<close> flag \<open>$\<close> is the end of the string.
\<close>

fun stripPrefix :: "string \<Rightarrow> string \<Rightarrow> string option" where
  "stripPrefix [] s = Some s"
| "stripPrefix (p # ps) [] = None"
| "stripPrefix (p # ps) (c # cs) = (if p = c then stripPrefix ps cs else None)"

definition isLineTerminator :: "char \<Rightarrow> bool" where
  "isLineTerminator c \<longleftrightarrow> c = CHR 0x0A \<or> c = CHR 0x0D"

definition matchS3Uri :: "string \<Rightarrow> (string \<times> string) option" where
  "matchS3Uri s =
     (case stripPrefix ''s3://'' s of
        None \<Rightarrow> None
      | Some rest \<Rightarrow>
          (case dropWhile (\<lambda>c. c \<noteq> CHR ''/'') rest of
             [] \<Rightarrow> None
           | slash # key \<Rightarrow>
               if takeWhile (\<lambda>c. c \<noteq> CHR ''/'') rest = [] \<or> list_ex isLineTerminator key
               then None
               else Some (takeWhile (\<lambda>c. c \<noteq> CHR ''/'') rest, key)))"

fun parseS3Uri :: "jsval \<Rightarrow> js_error + (string \<times> string)" where
  "parseS3Uri (JStr s3Uri) =
     (case matchS3Uri s3Uri of
        Some (bucket, key) \<Rightarrow>
          if bucket = [] \<or> key = [] then Inl (Error (''Invalid S3 URI: '' @ s3Uri))
          else Inr (bucket, key)
      | None \<Rightarrow> Inl (Error (''Invalid S3 URI: '' @ s3Uri)))"
| "parseS3Uri v = Inl (Error (''Input must be a string: '' @ toStr v))"

text \<open>
  The outcome of an \<open>async\<close> call, once settled. A rejection records the stage at which it
  happens, because \<open>Promise.all\<close> rejects with the rejection that is delivered first:
  stage 0 is a throw in \<open>parseCitation\<close> itself, before its \<open>Promise.all\<close>; stage 1 is a
  throw in the synchronous part of a reference callback (the property reads and
  \<open>parseS3Uri\<close>), whose promise is already rejected when \<open>Promise.all\<close> subscribes to it;
  stage 2 is a rejection of the awaited \<open>getSignedUrl\<close>. An earlier stage is delivered
  first; within a stage the model takes list order (for stage 2 the real order is that
  of the storage collaborator's replies).
\<close>

datatype 'a promise = Fulfilled 'a | Rejected nat js_error

fun rejections :: "'a promise list \<Rightarrow> (nat \<times> js_error) list" where
  "rejections [] = []"
| "rejections (Fulfilled v # ps) = rejections ps"
| "rejections (Rejected t e # ps) = (t, e) # rejections ps"

fun fulfilments :: "'a promise list \<Rightarrow> 'a list" where
  "fulfilments [] = []"
| "fulfilments (Fulfilled v # ps) = v # fulfilments ps"
| "fulfilments (Rejected t e # ps) = fulfilments ps"

fun earliest :: "nat \<times> js_error \<Rightarrow> (nat \<times> js_error) list \<Rightarrow> nat \<times> js_error" where
  "earliest r [] = r"
| "earliest r (x # xs) = earliest (if fst x < fst r then x else r) xs"

text \<open>\<open>Promise.all\<close>: all the values in order, or the first rejection delivered.\<close>

definition promise_all :: "'a promise list \<Rightarrow> 'a list promise" where
  "promise_all ps =
     (case rejections ps of
        [] \<Rightarrow> Fulfilled (fulfilments ps)
      | r # rs \<Rightarrow> Rejected (fst (earliest r rs)) (snd (earliest r rs)))"

text \<open>
  The object literal \<open>{ ...reference, signedUrl }\<close>: the own properties of \<open>reference\<close> are
  copied and \<open>signedUrl\<close> is set, in place if it was there already. The own properties
  of an array or a string are its indices; a number, a boolean, \<open>null\<close> and \<open>undefined\<close>
  have none. (The callback reaches the literal only after it has read
  \<open>reference.location.s3Location.uri\<close> as a string, so there \<open>reference\<close> is an object.)
\<close>

fun ownProperties :: "jsval \<Rightarrow> (string \<times> jsval) list" where
  "ownProperties (JObj fs) = fs"
| "ownProperties (JArr xs) = zip (map digits [0..<length xs]) xs"
| "ownProperties (JStr s) = zip (map digits [0..<length s]) (map (\<lambda>c. JStr [c]) s)"
| "ownProperties _ = []"

definition spreadSignedUrl :: "jsval \<Rightarrow> string \<Rightarrow> jsval" where
  "spreadSignedUrl reference signedUrl =
     JObj (AList.update ''signedUrl'' (JStr signedUrl) (ownProperties reference))"

text \<open>
  The storage collaborator \<open>getSignedUrl(s3Client, new GetObjectCommand({Bucket, Key}),
  {expiresIn})\<close> is a parameter: bucket, key and expiry in seconds to a URL or an error.
\<close>

type_synonym signer = "string \<Rightarrow> string \<Rightarrow> nat \<Rightarrow> js_error + string"

text \<open>The callback that \<open>parseCitation\<close> maps over \<open>citation.retrievedReferences\<close>.\<close>

definition resolveReference :: "signer \<Rightarrow> jsval \<Rightarrow> jsval promise" where
  "resolveReference getSignedUrl reference =
     (case getPath reference [''location'', ''s3Location'', ''uri''] of
        Inl e \<Rightarrow> Rejected 1 e
      | Inr uri \<Rightarrow>
          (case parseS3Uri uri of
             Inl e \<Rightarrow> Rejected 1 e
           | Inr (bucket, key) \<Rightarrow>
               (case getSignedUrl bucket key 3600 of
                  Inl e \<Rightarrow> Rejected 2 e
                | Inr signedUrl \<Rightarrow> Fulfilled (spreadSignedUrl reference signedUrl))))"

text \<open>
  \<open>parseCitation(citation)\<close>. \<open>citation.retrievedReferences.map\<close> throws unless the
  property is an array (JSON values carry no functions).
\<close>

definition parseCitation :: "signer \<Rightarrow> jsval \<Rightarrow> jsval promise" where
  "parseCitation getSignedUrl citation =
     (case getProp citation ''retrievedReferences'' of
        Inl e \<Rightarrow> Rejected 0 e
      | Inr (JArr refs) \<Rightarrow>
          (case promise_all (map (resolveReference getSignedUrl) refs) of
             Rejected t e \<Rightarrow> Rejected t e
           | Fulfilled retrievedReferences \<Rightarrow>
               Fulfilled (JObj [(''metadata'', optprop citation ''metadata''),
                                (''retrievedReferences'', JArr retrievedReferences)]))
      | Inr v \<Rightarrow>
          (case getProp v ''map'' of
             Inl e \<Rightarrow> Rejected 0 e
           | Inr _ \<Rightarrow> Rejected 0 (TypeError ''citation.retrievedReferences.map is not a function'')))"

section \<open>Retrieval Client (retrieval.js)\<close>

text \<open>The two values read from \<open>process.env\<close>: a string, or \<open>undefined\<close> when unset.\<close>

record retrieval_env =
  KNOWLEDGE_BASE_ID :: jsval
  MODEL_ARN :: jsval

definition NUMBER_OF_RESULTS :: int where
  "NUMBER_OF_RESULTS = 5"

definition OVERRIDE_SEARCH_TYPE :: string where
  "OVERRIDE_SEARCH_TYPE = ''HYBRID''"

definition MODEL_TYPE :: string where
  "MODEL_TYPE = ''KNOWLEDGE_BASE''"

definition textInferenceConfig :: jsval where
  "textInferenceConfig =
     JObj [(''temperature'', JNum 0), (''topP'', JNum 1), (''topK'', JNum 250),
           (''maxTokens'', JNum 2048)]"

definition generationConfiguration :: jsval where
  "generationConfiguration =
     JObj [(''inferenceConfig'', JObj [(''textInferenceConfig'', textInferenceConfig)])]"

definition orchestrationConfiguration :: jsval where
  "orchestrationConfiguration =
     JObj [(''inferenceConfig'', JObj [(''textInferenceConfig'', textInferenceConfig)])]"

text \<open>
  The request object \<open>input\<close> at the moment it is handed to
  \<open>RetrieveAndGenerateCommand\<close>: the literal, and \<open>input.sessionId = sessionId\<close> under
  \<open>if (sessionId)\<close>.
\<close>

definition retrievalInput :: "retrieval_env \<Rightarrow> jsval \<Rightarrow> jsval \<Rightarrow> (string \<times> jsval) list" where
  "retrievalInput env prompt sessionId =
     (let input =
        [(''input'', JObj [(''text'', prompt)]),
         (''retrieveAndGenerateConfiguration'',
          JObj [(''type'', JStr MODEL_TYPE),
                (''knowledgeBaseConfiguration'',
                 JObj [(''knowledgeBaseId'', KNOWLEDGE_BASE_ID env),
                       (''modelArn'', MODEL_ARN env),
                       (''retrievalConfiguration'',
                        JObj [(''vectorSearchConfiguration'',
                               JObj [(''numberOfResults'', JNum NUMBER_OF_RESULTS),
                                     (''overrideSearchType'', JStr OVERRIDE_SEARCH_TYPE)])]),
                       (''generationConfiguration'', generationConfiguration),
                       (''orchestrationConfiguration'', orchestrationConfiguration)])])]
      in if truthy sessionId then AList.update ''sessionId'' sessionId input else input)"

text \<open>
  The upstream call \<open>client.send(new RetrieveAndGenerateCommand(input))\<close> is a
  parameter: the request object to the reply or the error it rejects with.
\<close>

type_synonym retrieval_upstream = "jsval \<Rightarrow> js_error + jsval"

text \<open>
  The \<open>try\<close> block of \<open>invokeBedrockRetrieval\<close>. \<open>response?.citations?.map(...)\<close> is
  \<open>undefined\<close> when the reply has no citation list, and \<open>Promise.all(undefined)\<close>
  rejects; a citation list that is no array has no \<open>map\<close>.
\<close>

definition retrievalBody ::
    "retrieval_upstream \<Rightarrow> signer \<Rightarrow> retrieval_env \<Rightarrow> jsval \<Rightarrow> jsval \<Rightarrow> js_error + jsval" where
  "retrievalBody send getSignedUrl env prompt sessionId =
     (case send (JObj (retrievalInput env prompt sessionId)) of
        Inl e \<Rightarrow> Inl e
      | Inr response \<Rightarrow>
          (case optprop response ''citations'' of
             JArr cs \<Rightarrow>
               (case promise_all (map (parseCitation getSignedUrl) cs) of
                  Rejected t e \<Rightarrow> Inl e
                | Fulfilled citations \<Rightarrow>
                    (let result =
                       JObj [(''sessionId'', optprop response ''sessionId''),
                             (''response'',
                              JObj [(''output'',
                                     JObj [(''text'', optprop (optprop response ''output'') ''text'')]),
                                    (''citations'', JArr citations),
                                    (''guardrailAction'', optprop response ''guardrailAction'')])]
                     in Inr (JObj [(''sessionId'', sessionId), (''response'', result)])))
           | JUndefined \<Rightarrow> Inl (TypeError ''undefined is not iterable (cannot read property Symbol(Symbol.iterator))'')
           | JNull \<Rightarrow> Inl (TypeError ''undefined is not iterable (cannot read property Symbol(Symbol.iterator))'')
           | _ \<Rightarrow> Inl (TypeError ''response?.citations?.map is not a function'')))"

text \<open>
  \<open>invokeBedrockRetrieval(prompt, sessionId)\<close>: the \<open>try\<close> block under its \<open>catch\<close>,
  which replaces a \<open>ServiceException\<close> by a new \<open>Error\<close> and rethrows anything else.
  Logging is not modelled.
\<close>

definition invokeBedrockRetrieval ::
    "retrieval_upstream \<Rightarrow> signer \<Rightarrow> retrieval_env \<Rightarrow> jsval \<Rightarrow> jsval \<Rightarrow> js_error + jsval" where
  "invokeBedrockRetrieval send getSignedUrl env prompt sessionId =
     (case retrievalBody send getSignedUrl env prompt sessionId of
        Inl error \<Rightarrow>
          if err_name error = ''ServiceException''
          then Inl (Error (''AWS Bedrock API error: '' @ toStr (err_code error) @ '' - ''
                           @ err_message error))
          else Inl error
      | Inr v \<Rightarrow> Inr v)"

section \<open>Agent Client (agent.js)\<close>

text \<open>
  The reply of \<open>InvokeAgentCommand\<close>: \<open>completion\<close> is absent or an asynchronous
  sequence, modelled as the finite list of what the iterator does in order: yield an
  event, or throw. An event carries a \<open>chunk\<close> or not (the stream has other event
  kinds), and a chunk carries \<open>bytes\<close> or not.
\<close>

datatype chunk_payload = Chunk (bytes: "8 word list option")

datatype chunk_event = ChunkEvent (chunk: "chunk_payload option")

datatype stream_item = Yield chunk_event | Throw js_error

datatype agent_response = AgentResponse (completion: "stream_item list option")

type_synonym agent_upstream = "jsval \<Rightarrow> js_error + agent_response"

text \<open>
  The stream that delivers the given chunks in order and ends: each item yields an event
  whose \<open>chunk\<close> carries the bytes of one chunk.
\<close>

definition chunkStream :: "8 word list list \<Rightarrow> stream_item list" where
  "chunkStream chunks = map (\<lambda>bs. Yield (ChunkEvent (Some (Chunk (Some bs))))) chunks"

text \<open>
  \<open>new TextDecoder("utf-8").decode(chunk.bytes)\<close>, with the platform's decoder as a
  parameter: one fresh decoder for each chunk, and the empty string without input.
\<close>

type_synonym decoder = "8 word list \<Rightarrow> string"

definition decodeBytes :: "decoder \<Rightarrow> 8 word list option \<Rightarrow> string" where
  "decodeBytes decode b = (case b of None \<Rightarrow> [] | Some bs \<Rightarrow> decode bs)"

text \<open>
  The \<open>for await\<close> loop; \<open>text\<close> is the value of the variable \<open>completion\<close> so far.
\<close>

fun consume :: "decoder \<Rightarrow> string \<Rightarrow> stream_item list \<Rightarrow> js_error + string" where
  "consume decode text [] = Inr text"
| "consume decode text (Throw e # rest) = Inl e"
| "consume decode text (Yield chunkEvent # rest) =
     (case chunk chunkEvent of
        None \<Rightarrow> Inl (TypeError ''Cannot read properties of undefined (reading 'bytes')'')
      | Some c \<Rightarrow> consume decode (text @ decodeBytes decode (bytes c)) rest)"

record agent_env =
  AGENT_ID :: jsval
  AGENT_ALIAS_ID :: jsval

definition agentCommand :: "agent_env \<Rightarrow> jsval \<Rightarrow> jsval \<Rightarrow> jsval" where
  "agentCommand env prompt sessionId =
     JObj [(''agentId'', AGENT_ID env), (''agentAliasId'', AGENT_ALIAS_ID env),
           (''sessionId'', sessionId), (''inputText'', prompt)]"

text \<open>The \<open>try\<close> block of \<open>invokeBedrockAgent\<close>.\<close>

definition agentBody ::
    "agent_upstream \<Rightarrow> decoder \<Rightarrow> agent_env \<Rightarrow> jsval \<Rightarrow> jsval \<Rightarrow> js_error + jsval" where
  "agentBody send decode env prompt sessionId =
     (case send (agentCommand env prompt sessionId) of
        Inl e \<Rightarrow> Inl e
      | Inr response \<Rightarrow>
          (case completion response of
             None \<Rightarrow> Inl (Error ''Completion is undefined'')
           | Some stream \<Rightarrow>
               (case consume decode [] stream of
                  Inl e \<Rightarrow> Inl e
                | Inr text \<Rightarrow>
                    Inr (JObj [(''sessionId'', sessionId), (''completion'', JStr text)]))))"

text \<open>
  \<open>invokeBedrockAgent(prompt, sessionId)\<close>: the \<open>catch\<close> block logs the error and falls
  off the end of the function, which then returns \<open>undefined\<close>.
\<close>

definition invokeBedrockAgent ::
    "agent_upstream \<Rightarrow> decoder \<Rightarrow> agent_env \<Rightarrow> jsval \<Rightarrow> jsval \<Rightarrow> js_error + jsval" where
  "invokeBedrockAgent send decode env prompt sessionId =
     (case agentBody send decode env prompt sessionId of
        Inl err \<Rightarrow> Inr JUndefined
      | Inr v \<Rightarrow> Inr v)"

section \<open>HTTP handler of POST /retrieve (index.js)\<close>

record http_response =
  status :: jsval
  body :: jsval

text \<open>
  A handler run ends with a response, or with an error that escapes the handler. The
  second component of the handler's result lists the argument pairs of its calls of
  \<open>invokeBedrockRetrieval\<close>.
\<close>

datatype handler_outcome = Responded http_response | Uncaught js_error

text \<open>
  \<open>res.status(code)\<close> of the framework (Express 5): it accepts an integer from 100 to
  999 and throws on any other value.
\<close>

definition resStatus :: "jsval \<Rightarrow> js_error + jsval" where
  "resStatus code =
     (case code of
        JNum n \<Rightarrow>
          if n < 100 \<or> n > 999
          then Inl (JsError ''RangeError''
                      (''Invalid status code: '' @ jsonStringify code
                         @ ''. Status code must be greater than 99 and less than 1000.'') JUndefined)
          else Inr code
      | _ \<Rightarrow>
          Inl (TypeError (''Invalid status code: '' @ jsonStringify code
                            @ ''. Status code must be an integer.'')))"

text \<open>
  The \<open>catch\<close> block: \<open>res.status(error?.code || 500).json(error?.message)\<close>. When
  \<open>res.status\<close> throws, the error escapes the handler.
\<close>

definition catchResponse :: "js_error \<Rightarrow> handler_outcome" where
  "catchResponse error =
     (case resStatus (if truthy (err_code error) then err_code error else JNum 500) of
        Inl e \<Rightarrow> Uncaught e
      | Inr code \<Rightarrow> Responded \<lparr>status = code, body = JStr (err_message error)\<rparr>)"

text \<open>
  The handler, applied to \<open>req.body\<close>. Destructuring \<open>undefined\<close> or \<open>null\<close> throws
  outside the \<open>try\<close>; a property that the body lacks is \<open>undefined\<close>.
\<close>

definition retrieveHandler ::
    "retrieval_upstream \<Rightarrow> signer \<Rightarrow> retrieval_env \<Rightarrow> jsval
       \<Rightarrow> handler_outcome \<times> (jsval \<times> jsval) list" where
  "retrieveHandler send getSignedUrl env reqBody =
     (if reqBody = JUndefined
      then (Uncaught (TypeError
              ''Cannot destructure property 'message' of 'req.body' as it is undefined.''), [])
      else if reqBody = JNull
      then (Uncaught (TypeError
              ''Cannot destructure property 'message' of 'req.body' as it is null.''), [])
      else
        (let message = optprop reqBody ''message'';
             session_id = optprop reqBody ''session_id''
         in if \<not> truthy message
            then (Responded \<lparr>status = JNum 400,
                              body = JObj [(''error'', JStr ''Prompt is required'')]\<rparr>, [])
            else
              (case sanitize message of
                 Inl error \<Rightarrow> (catchResponse error, [])
               | Inr cleanPrompt \<Rightarrow>
                   (case sanitizeSessionID session_id of
                      Inl error \<Rightarrow> (catchResponse error, [])
                    | Inr cleanSessionId \<Rightarrow>
                        ((case invokeBedrockRetrieval send getSignedUrl env
                                (JStr cleanPrompt) (JStr cleanSessionId) of
                            Inl error \<Rightarrow> catchResponse error
                          | Inr response \<Rightarrow> Responded \<lparr>status = JNum 200, body = response\<rparr>),
                         [(JStr cleanPrompt, JStr cleanSessionId)])))))"

section \<open>Stub collaborators\<close>

text \<open>
  Concrete collaborators for the examples: an upstream that answers \<open>answer\<close> with no
  citations and keeps the session of the request or assigns \<open>generated-1\<close>; a signer; an
  agent upstream that streams the given chunks; a decoder for ASCII bytes.
\<close>

definition stubEnv :: retrieval_env where
  "stubEnv = \<lparr>KNOWLEDGE_BASE_ID = JStr ''kb-1'', MODEL_ARN = JStr ''arn:model''\<rparr>"

definition stubRetrieval :: retrieval_upstream where
  "stubRetrieval input =
     Inr (JObj [(''sessionId'',
                 (if optprop input ''sessionId'' = JUndefined then JStr ''generated-1''
                  else optprop input ''sessionId'')),
                (''output'', JObj [(''text'', JStr ''answer'')]),
                (''citations'', JArr [])])"

definition stubSigner :: signer where
  "stubSigner bucket key expiresIn =
     Inr (''https://'' @ bucket @ ''.s3.example/'' @ key @ ''?expires='' @ digits expiresIn)"

definition stubAgentEnv :: agent_env where
  "stubAgentEnv = \<lparr>AGENT_ID = JStr ''agent-1'', AGENT_ALIAS_ID = JStr ''alias-1''\<rparr>"

definition stubAgent :: "8 word list list \<Rightarrow> agent_upstream" where
  "stubAgent chunks command = Inr (AgentResponse (Some (chunkStream chunks)))"

definition stubAgentNoCompletion :: agent_upstream where
  "stubAgentNoCompletion command = Inr (AgentResponse None)"

definition asciiDecode :: decoder where
  "asciiDecode bs = map (\<lambda>b. char_of (unat b)) bs"

definition stubReference :: "string \<Rightarrow> string \<Rightarrow> jsval" where
  "stubReference title uri =
     JObj [(''content'', JObj [(''text'', JStr title)]),
           (''location'', JObj [(''type'', JStr ''S3''),
                               (''s3Location'', JObj [(''uri'', JStr uri)])])]"

definition stubCitation :: "string list \<Rightarrow> jsval" where
  "stubCitation uris =
     JObj [(''generatedResponsePart'', JObj [(''text'', JStr ''part'')]),
           (''retrievedReferences'', JArr (map (stubReference ''doc'') uris))]"

section \<open>Properties of the Sanitizer\<close>

lemma replaceChar_absent: "c \<notin> set s \<Longrightarrow> replaceChar c r s = s"
  by (induction s) (auto simp: replaceChar_def)

lemma set_removeSpecial: "set (removeSpecial s) = set s - set ''<>;&|''"
  by (auto simp: removeSpecial_def)

lemma sanitizedPrompt_strip: "sanitizedPrompt p = spec_strip_only p"
  by (simp add: sanitizedPrompt_def spec_strip_only_def replaceChar_absent set_removeSpecial)

lemma trim_leading: "isWhiteSpace c \<Longrightarrow> trim (c # s) = trim s"
  by (simp add: trim_def)

lemma trim_clean_ends:
  assumes "s \<noteq> []" "\<not> isWhiteSpace (hd s)" "\<not> isWhiteSpace (last s)"
  shows "trim s = s"
proof -
  from assms have "dropWhile isWhiteSpace s = s"
    by (cases s) simp_all
  moreover from assms have "dropWhile isWhiteSpace (rev s) = rev s"
    by (cases "rev s") (simp_all add: last_rev [symmetric] hd_rev)
  ultimately show ?thesis by (simp add: trim_def)
qed

lemma lowerChar_samples:
  "lowerChar (CHR ''A'') = CHR ''a''" "lowerChar (CHR ''<'') = CHR ''<''"
  "lowerChar (CHR ''>'') = CHR ''>''"
  by code_simp+

lemma isWhiteSpace_samples:
  "isWhiteSpace (CHR '' '')" "\<not> isWhiteSpace (CHR ''A'')" "\<not> isWhiteSpace (CHR ''>'')"
  by (simp_all add: isWhiteSpace_def)

text \<open>A padded prompt of \<open>n\<close> capitals followed by two stripped characters cleans to \<open>n\<close> letters.\<close>

lemma sanitizedPrompt_padded:
  assumes n: "0 < n"
  shows "sanitizedPrompt (''  '' @ replicate n (CHR ''A'') @ ''<>'') = replicate n (CHR ''a'')"
proof -
  have "trim (''  '' @ replicate n (CHR ''A'') @ ''<>'') = trim (replicate n (CHR ''A'') @ ''<>'')"
    by (simp add: trim_leading isWhiteSpace_samples)
  also have "\<dots> = replicate n (CHR ''A'') @ ''<>''"
    using n by (intro trim_clean_ends) (simp_all add: isWhiteSpace_samples hd_append)
  finally show ?thesis
    by (simp add: sanitizedPrompt_strip spec_strip_only_def toLowerCase_def removeSpecial_def
        lowerChar_samples)
qed

text \<open>
  Claim C7. For every input, \<open>sanitize\<close> equals the pipeline trim, lowercase, strip of
  \<open>< > ; & |\<close> followed by the length check: the three entity-escape replacements act on
  a string from which every \<open>&\<close>, \<open><\<close> and \<open>>\<close> has already been deleted, so they change
  nothing, and the pipelines with and without them are equal as functions.
\<close>

theorem sanitize_escape_noop:
  "sanitize = spec_sanitize_no_escape
   \<and> sanitizedPrompt = spec_strip_only
   \<and> (\<forall>s. replaceChar (CHR ''>'') ''&gt;''
             (replaceChar (CHR ''<'') ''&lt;''
               (replaceChar (CHR ''&'') ''&amp;'' (removeSpecial s))) = removeSpecial s)"
proof (intro conjI allI)
  show "sanitize = spec_sanitize_no_escape"
  proof
    fix v show "sanitize v = spec_sanitize_no_escape v"
      by (cases v) (simp_all add: sanitizedPrompt_strip)
  qed
  show "sanitizedPrompt = spec_strip_only"
    by (rule ext) (rule sanitizedPrompt_strip)
  fix s
  show "replaceChar (CHR ''>'') ''&gt;''
          (replaceChar (CHR ''<'') ''&lt;''
            (replaceChar (CHR ''&'') ''&amp;'' (removeSpecial s))) = removeSpecial s"
    by (simp add: replaceChar_absent set_removeSpecial)
qed

theorem sanitize_escape_noop_witness:
  "sanitize (JStr ''  Tom & <b>Jerry</b>; a|b  '') = Inr ''tom  bjerry/b ab''"
proof -
  have "spec_sanitize_no_escape (JStr ''  Tom & <b>Jerry</b>; a|b  '') = Inr ''tom  bjerry/b ab''"
    by code_simp
  with sanitize_escape_noop show ?thesis by simp
qed

text \<open>
  Claim C8. When the cleaned prompt is longer than 2048 characters \<open>sanitize\<close> throws the
  error \<open>Prompt is too long\<close>; when it has exactly 2048 characters \<open>sanitize\<close> returns it.
\<close>

theorem sanitize_length_limit:
  "(2048 < length (sanitizedPrompt prompt) \<longrightarrow>
      sanitize (JStr prompt) = Inl (Error ''Prompt is too long''))
   \<and> (length (sanitizedPrompt prompt) = 2048 \<longrightarrow>
      sanitize (JStr prompt) = Inr (sanitizedPrompt prompt))"
  by simp

theorem sanitize_length_limit_witness:
  "2048 < length (sanitizedPrompt (''  '' @ replicate 2049 (CHR ''A'') @ ''<>''))
   \<and> sanitize (JStr (''  '' @ replicate 2049 (CHR ''A'') @ ''<>'')) = Inl (Error ''Prompt is too long'')
   \<and> length (sanitizedPrompt (''  '' @ replicate 2048 (CHR ''A'') @ ''<>'')) = 2048
   \<and> sanitize (JStr (''  '' @ replicate 2048 (CHR ''A'') @ ''<>'')) = Inr (replicate 2048 (CHR ''a''))"
proof -
  have a: "sanitizedPrompt (''  '' @ replicate 2049 (CHR ''A'') @ ''<>'') = replicate 2049 (CHR ''a'')"
    by (rule sanitizedPrompt_padded) simp
  have b: "sanitizedPrompt (''  '' @ replicate 2048 (CHR ''A'') @ ''<>'') = replicate 2048 (CHR ''a'')"
    by (rule sanitizedPrompt_padded) simp
  have la: "2048 < length (sanitizedPrompt (''  '' @ replicate 2049 (CHR ''A'') @ ''<>''))"
    unfolding a length_replicate by simp
  have lb: "length (sanitizedPrompt (''  '' @ replicate 2048 (CHR ''A'') @ ''<>'')) = 2048"
    by (simp only: b length_replicate)
  from sanitize_length_limit [of "''  '' @ replicate 2049 (CHR ''A'') @ ''<>''"] la
  have ra: "sanitize (JStr (''  '' @ replicate 2049 (CHR ''A'') @ ''<>'')) = Inl (Error ''Prompt is too long'')"
    by blast
  from sanitize_length_limit [of "''  '' @ replicate 2048 (CHR ''A'') @ ''<>''"] lb
  have rb: "sanitize (JStr (''  '' @ replicate 2048 (CHR ''A'') @ ''<>''))
            = Inr (sanitizedPrompt (''  '' @ replicate 2048 (CHR ''A'') @ ''<>''))"
    by blast
  from la ra lb rb b show ?thesis by (simp only:)
qed

text \<open>
  Claim C9, as the specification states it: every sanitized session identifier matches
  \<open>[0-9A-Za-z._:-]+\<close> and has a length from 2 to 100. \<open>sanitizeSessionID\<close> only deletes
  characters and checks no length: the identifier \<open>a!\<close> is sanitized to the single
  character \<open>a\<close>, and the empty identifier stays empty.
\<close>

theorem sanitizeSessionID_length_counterexample:
  "sanitizeSessionID (JStr ''a!'') = Inr ''a'' \<and> \<not> spec_session_invariant ''a''
   \<and> sanitizeSessionID (JStr '''') = Inr '''' \<and> \<not> spec_session_invariant ''''"
  by code_simp

text \<open>
  Claim C9, amended. For every string session identifier the sanitizer returns (it never
  throws) a string of characters of \<open>[0-9A-Za-z._:-]\<close> only, no longer than the input; an
  input made of such characters only is returned unchanged, the empty one included. No
  length from 2 to 100 is enforced.
\<close>

theorem sanitizeSessionID_charset:
  "\<exists>r. sanitizeSessionID (JStr input) = Inr r
       \<and> list_all isSessionChar r
       \<and> length r \<le> length input
       \<and> (list_all isSessionChar input \<longrightarrow> r = input)
       \<and> (input = [] \<longrightarrow> r = [])"
  by (simp add: list_all_iff)

theorem sanitizeSessionID_charset_witness:
  "(\<exists>r. sanitizeSessionID (JStr ''a1.b_C:-'') = Inr r \<and> r = ''a1.b_C:-'')
   \<and> list_all isSessionChar ''a1.b_C:-''
   \<and> (\<exists>r. sanitizeSessionID (JStr []) = Inr r \<and> r = [])"
proof -
  have ok: "list_all isSessionChar ''a1.b_C:-''" by code_simp
  from sanitizeSessionID_charset [of "''a1.b_C:-''"] ok
  have "\<exists>r. sanitizeSessionID (JStr ''a1.b_C:-'') = Inr r \<and> r = ''a1.b_C:-''" by blast
  moreover from sanitizeSessionID_charset [of "[]"]
  have "\<exists>r. sanitizeSessionID (JStr []) = Inr r \<and> r = []" by blast
  ultimately show ?thesis using ok by blast
qed

section \<open>Properties of the Citation Resolver\<close>


lemma stripPrefix_Some: "stripPrefix p s = Some r \<Longrightarrow> s = p @ r"
  by (induction p s rule: stripPrefix.induct) (auto split: if_splits)




lemma matchS3Uri_Some:
  assumes "matchS3Uri u = Some (b, k)"
  shows "u = ''s3://'' @ b @ ''/'' @ k \<and> b \<noteq> [] \<and> CHR ''/'' \<notin> set b
         \<and> \<not> list_ex isLineTerminator k"
proof -
  from assms obtain rest where sp: "stripPrefix ''s3://'' u = Some rest"
    by (auto simp: matchS3Uri_def split: option.splits)
  with assms obtain slash where
    dw: "dropWhile (\<lambda>c. c \<noteq> CHR ''/'') rest = slash # k" and
    b: "b = takeWhile (\<lambda>c. c \<noteq> CHR ''/'') rest" and
    ne: "b \<noteq> []" and lt: "\<not> list_ex isLineTerminator k"
    by (auto simp: matchS3Uri_def split: list.splits if_splits)
  from dw have "slash = CHR ''/''"
    using hd_dropWhile [of "\<lambda>c. c \<noteq> CHR ''/''" rest] by simp
  with dw b have "rest = b @ ''/'' @ k"
    using takeWhile_dropWhile_id [of "\<lambda>c. c \<noteq> CHR ''/''" rest] by simp
  moreover from b have "CHR ''/'' \<notin> set b"
    by (auto dest: set_takeWhileD)
  ultimately show ?thesis
    using stripPrefix_Some [OF sp] ne lt by simp
qed


lemma parseS3Uri_Inr:
  assumes "parseS3Uri v = Inr (b, k)"
  shows "\<exists>u. v = JStr u \<and> u = ''s3://'' @ b @ ''/'' @ k \<and> b \<noteq> [] \<and> k \<noteq> []
             \<and> CHR ''/'' \<notin> set b \<and> \<not> list_ex isLineTerminator k"
proof (cases v)
  case (JStr u)
  with assms have "matchS3Uri u = Some (b, k)" "k \<noteq> []"
    by (auto split: option.splits if_splits)
  with JStr show ?thesis using matchS3Uri_Some [of u b k] by simp
qed (use assms in simp_all)

lemma parseS3Uri_malformed:
  assumes "\<not> (\<exists>b k. u = ''s3://'' @ b @ ''/'' @ k \<and> b \<noteq> [] \<and> k \<noteq> [] \<and> CHR ''/'' \<notin> set b)"
  shows "parseS3Uri (JStr u) = Inl (Error (''Invalid S3 URI: '' @ u))"
proof (cases "parseS3Uri (JStr u)")
  case (Inl e)
  then show ?thesis by (auto split: option.splits if_splits)
next
  case (Inr bk)
  obtain b k where "bk = (b, k)" by (cases bk)
  with Inr assms show ?thesis using parseS3Uri_Inr [of "JStr u" b k] by blast
qed

lemma rejections_empty_iff: "rejections ps = [] \<longleftrightarrow> ps = map Fulfilled (fulfilments ps)"
  by (induction ps rule: rejections.induct) auto

lemma fulfilments_map: "fulfilments (map Fulfilled vs) = vs"
  by (induction vs) simp_all

lemma rejections_map: "rejections (map Fulfilled vs) = []"
  by (induction vs) simp_all

lemma promise_all_Fulfilled_iff: "promise_all ps = Fulfilled vs \<longleftrightarrow> ps = map Fulfilled vs"
proof
  assume "promise_all ps = Fulfilled vs"
  then have "rejections ps = []" "fulfilments ps = vs"
    by (auto simp: promise_all_def split: list.splits)
  then show "ps = map Fulfilled vs" using rejections_empty_iff [of ps] by simp
next
  assume "ps = map Fulfilled vs"
  then show "promise_all ps = Fulfilled vs"
    by (simp add: promise_all_def rejections_map fulfilments_map)
qed

lemma promise_all_Rejected:
  assumes "Rejected t e \<in> set ps"
  shows "\<exists>t' e'. promise_all ps = Rejected t' e'"
proof (cases "promise_all ps")
  case (Fulfilled vs)
  then have "ps = map Fulfilled vs" by (simp add: promise_all_Fulfilled_iff)
  with assms show ?thesis by auto
qed auto



lemma resolveReference_malformed:
  assumes "getPath r [''location'', ''s3Location'', ''uri''] = Inr (JStr u)"
    and "\<not> (\<exists>b k. u = ''s3://'' @ b @ ''/'' @ k \<and> b \<noteq> [] \<and> k \<noteq> [] \<and> CHR ''/'' \<notin> set b)"
  shows "resolveReference getSignedUrl r = Rejected 1 (Error (''Invalid S3 URI: '' @ u))"
  using assms(1) parseS3Uri_malformed [OF assms(2)]
  by (simp add: resolveReference_def del: parseS3Uri.simps getPath.simps)


lemma getProp_update_signedUrl:
  "getProp (JObj (AList.update ''signedUrl'' v fs)) ''signedUrl'' = Inr v"
  "key \<noteq> ''signedUrl'' \<Longrightarrow>
     getProp (JObj (AList.update ''signedUrl'' v fs)) key = getProp (JObj fs) key"
  by (simp_all add: update_conv')

lemma stubReference_uri:
  "getPath (stubReference title uri) [''location'', ''s3Location'', ''uri''] = Inr (JStr uri)"
  by (simp add: stubReference_def)

lemma stubCitation_refs:
  "getProp (stubCitation uris) ''retrievedReferences'' = Inr (JArr (map (stubReference ''doc'') uris))"
  by (simp add: stubCitation_def)


text \<open>
  Claim C4. When one reference of a citation fails to resolve, \<open>parseCitation\<close> rejects:
  it yields an error and no reference list, whatever the other references do. A
  reference whose URI is not of the shape \<open>s3://bucket/key\<close> with a bucket and a key that
  are not empty (\<open>not-a-uri\<close>, say) fails with the error \<open>Invalid S3 URI\<close>.
\<close>

theorem parseCitation_fail_fast:
  assumes "getProp citation ''retrievedReferences'' = Inr (JArr refs)"
    and "r \<in> set refs"
  shows "((\<exists>t e. resolveReference getSignedUrl r = Rejected t e) \<longrightarrow>
            (\<exists>t e. parseCitation getSignedUrl citation = Rejected t e)
            \<and> (\<forall>v. parseCitation getSignedUrl citation \<noteq> Fulfilled v))
       \<and> (\<forall>u. getPath r [''location'', ''s3Location'', ''uri''] = Inr (JStr u)
              \<and> \<not> (\<exists>b k. u = ''s3://'' @ b @ ''/'' @ k \<and> b \<noteq> [] \<and> k \<noteq> [] \<and> CHR ''/'' \<notin> set b)
            \<longrightarrow> resolveReference getSignedUrl r = Rejected 1 (Error (''Invalid S3 URI: '' @ u))
              \<and> (\<exists>t e. parseCitation getSignedUrl citation = Rejected t e)
              \<and> (\<forall>v. parseCitation getSignedUrl citation \<noteq> Fulfilled v))"
proof -
  have rej: "\<exists>t' e'. parseCitation getSignedUrl citation = Rejected t' e'"
    if "resolveReference getSignedUrl r = Rejected t e" for t e
  proof -
    from that assms(2) have "Rejected t e \<in> set (map (resolveReference getSignedUrl) refs)"
      by force
    then obtain t' e' where "promise_all (map (resolveReference getSignedUrl) refs) = Rejected t' e'"
      using promise_all_Rejected by blast
    with assms(1) show ?thesis by (simp add: parseCitation_def)
  qed
  have nof: "\<forall>v. parseCitation getSignedUrl citation \<noteq> Fulfilled v"
    if "resolveReference getSignedUrl r = Rejected t e" for t e
    using rej [OF that] by auto
  show ?thesis
    using rej nof resolveReference_malformed [of r _ getSignedUrl] by blast
qed

theorem parseCitation_fail_fast_witness:
  "getProp (stubCitation [''s3://docs/a.pdf'', ''not-a-uri'', ''s3://docs/c.pdf'']) ''retrievedReferences''
     = Inr (JArr (map (stubReference ''doc'') [''s3://docs/a.pdf'', ''not-a-uri'', ''s3://docs/c.pdf'']))
   \<and> stubReference ''doc'' ''not-a-uri''
       \<in> set (map (stubReference ''doc'') [''s3://docs/a.pdf'', ''not-a-uri'', ''s3://docs/c.pdf''])
   \<and> getPath (stubReference ''doc'' ''not-a-uri'') [''location'', ''s3Location'', ''uri'']
       = Inr (JStr ''not-a-uri'')
   \<and> resolveReference stubSigner (stubReference ''doc'' ''not-a-uri'')
       = Rejected 1 (Error ''Invalid S3 URI: not-a-uri'')
   \<and> (\<exists>t e. parseCitation stubSigner
                (stubCitation [''s3://docs/a.pdf'', ''not-a-uri'', ''s3://docs/c.pdf'']) = Rejected t e)
   \<and> (\<forall>v. parseCitation stubSigner
              (stubCitation [''s3://docs/a.pdf'', ''not-a-uri'', ''s3://docs/c.pdf'']) \<noteq> Fulfilled v)"
proof -
  let ?uris = "[''s3://docs/a.pdf'', ''not-a-uri'', ''s3://docs/c.pdf'']"
  have h1: "getProp (stubCitation ?uris) ''retrievedReferences''
              = Inr (JArr (map (stubReference ''doc'') ?uris))"
    by (rule stubCitation_refs)
  have h2: "stubReference ''doc'' ''not-a-uri'' \<in> set (map (stubReference ''doc'') ?uris)"
    by simp
  have h3: "getPath (stubReference ''doc'' ''not-a-uri'') [''location'', ''s3Location'', ''uri'']
              = Inr (JStr ''not-a-uri'')"
    by (rule stubReference_uri)
  have h4: "\<not> (\<exists>b k. ''not-a-uri'' = ''s3://'' @ b @ ''/'' @ k \<and> b \<noteq> [] \<and> k \<noteq> [] \<and> CHR ''/'' \<notin> set b)"
    by simp
  from parseCitation_fail_fast [OF h1 h2, of stubSigner] h3 h4
  have "resolveReference stubSigner (stubReference ''doc'' ''not-a-uri'')
          = Rejected 1 (Error (''Invalid S3 URI: '' @ ''not-a-uri''))
        \<and> (\<exists>t e. parseCitation stubSigner (stubCitation ?uris) = Rejected t e)
        \<and> (\<forall>v. parseCitation stubSigner (stubCitation ?uris) \<noteq> Fulfilled v)"
    by blast
  with h1 h2 h3 show ?thesis by simp
qed




section \<open>Properties of the Agent Client\<close>

lemma consume_chunkStream:
  "consume decode acc (chunkStream chunks) = Inr (acc @ concat (map decode chunks))"
  by (induction chunks arbitrary: acc) (simp_all add: chunkStream_def decodeBytes_def)

lemma asciiDecode_samples:
  "asciiDecode [72, 101] = ''He''" "asciiDecode [108, 108, 111] = ''llo''"
  by code_simp+

text \<open>
  Claim C6. When the upstream replies with a finite stream of chunks, \<open>invokeBedrockAgent\<close>
  returns the session identifier it was given together with the completion that is the
  concatenation, in arrival order, of the decoded text of each chunk. With the chunks
  \<open>He\<close> and \<open>llo\<close>, \<open>invokeBedrockAgent("hello", "abc")\<close> returns the completion \<open>Hello\<close>
  and the session \<open>abc\<close>.
\<close>

theorem invokeBedrockAgent_concatenates:
  assumes "send (agentCommand env prompt sessionId) = Inr (AgentResponse (Some (chunkStream chunks)))"
  shows "invokeBedrockAgent send decode env prompt sessionId
           = Inr (JObj [(''sessionId'', sessionId),
                        (''completion'', JStr (concat (map decode chunks)))])"
  using assms by (simp add: invokeBedrockAgent_def agentBody_def consume_chunkStream)

theorem invokeBedrockAgent_concatenates_witness:
  "stubAgent [[72, 101], [108, 108, 111]] (agentCommand stubAgentEnv (JStr ''hello'') (JStr ''abc''))
     = Inr (AgentResponse (Some (chunkStream [[72, 101], [108, 108, 111]])))
   \<and> invokeBedrockAgent (stubAgent [[72, 101], [108, 108, 111]]) asciiDecode stubAgentEnv
         (JStr ''hello'') (JStr ''abc'')
       = Inr (JObj [(''sessionId'', JStr ''abc''), (''completion'', JStr ''Hello'')])"
proof -
  have h: "stubAgent [[72, 101], [108, 108, 111]] (agentCommand stubAgentEnv (JStr ''hello'') (JStr ''abc''))
     = Inr (AgentResponse (Some (chunkStream [[72, 101], [108, 108, 111]])))"
    by (simp only: stubAgent_def)
  from invokeBedrockAgent_concatenates
         [where send = "stubAgent [[72, 101], [108, 108, 111]]" and decode = asciiDecode
            and env = stubAgentEnv and prompt = "JStr ''hello''" and sessionId = "JStr ''abc''"
            and chunks = "[[72, 101], [108, 108, 111]]", OF h] h
  show ?thesis by (simp add: asciiDecode_samples)
qed

text \<open>
  Claim C3, on the code. The reply without a completion stream makes the \<open>try\<close> block
  throw \<open>Completion is undefined\<close>, but the \<open>catch\<close> block around it only logs the error:
  \<open>invokeBedrockAgent\<close> returns \<open>undefined\<close> and the caller sees no error.
\<close>

theorem invokeBedrockAgent_swallows_missing_completion:
  "agentBody stubAgentNoCompletion asciiDecode stubAgentEnv (JStr ''hello'') (JStr ''abc'')
     = Inl (Error ''Completion is undefined'')
   \<and> invokeBedrockAgent stubAgentNoCompletion asciiDecode stubAgentEnv (JStr ''hello'') (JStr ''abc'')
     = Inr JUndefined"
  by (simp add: invokeBedrockAgent_def agentBody_def stubAgentNoCompletion_def)

section \<open>Properties of the Retrieval Client\<close>

lemma retrievalInput_sessionId:
  "map_of (retrievalInput env prompt sessionId) ''sessionId''
     = (if truthy sessionId then Some sessionId else None)"
  by (simp add: retrievalInput_def update_conv')

lemma retrievalBody_success:
  assumes "send (JObj (retrievalInput env prompt sessionId)) = Inr response"
    and "optprop response ''citations'' = JArr cs"
    and "promise_all (map (parseCitation getSignedUrl) cs) = Fulfilled citations"
  shows "retrievalBody send getSignedUrl env prompt sessionId
     = Inr (JObj [(''sessionId'', sessionId),
                  (''response'',
                   JObj [(''sessionId'', optprop response ''sessionId''),
                         (''response'',
                          JObj [(''output'', JObj [(''text'', optprop (optprop response ''output'') ''text'')]),
                                (''citations'', JArr citations),
                                (''guardrailAction'', optprop response ''guardrailAction'')])])])"
  using assms by (simp add: retrievalBody_def)

lemma retrievalBody_Inr:
  assumes "retrievalBody send getSignedUrl env prompt sessionId = Inr result"
  shows "\<exists>response cs citations.
           send (JObj (retrievalInput env prompt sessionId)) = Inr response
           \<and> optprop response ''citations'' = JArr cs
           \<and> promise_all (map (parseCitation getSignedUrl) cs) = Fulfilled citations"
  using assms
  by (auto simp: retrievalBody_def split: sum.splits jsval.splits promise.splits)

lemma invokeBedrockRetrieval_Inr:
  "invokeBedrockRetrieval send getSignedUrl env prompt sessionId = Inr result
     \<longleftrightarrow> retrievalBody send getSignedUrl env prompt sessionId = Inr result"
  by (simp add: invokeBedrockRetrieval_def split: sum.splits)

lemma stubRetrieval_no_session:
  "stubRetrieval (JObj (retrievalInput stubEnv prompt JUndefined))
     = Inr (JObj [(''sessionId'', JStr ''generated-1''),
                  (''output'', JObj [(''text'', JStr ''answer'')]),
                  (''citations'', JArr [])])"
  by (simp add: stubRetrieval_def retrievalInput_sessionId)

lemma stubRetrieval_with_session:
  "truthy sid \<Longrightarrow> sid \<noteq> JUndefined \<Longrightarrow> stubRetrieval (JObj (retrievalInput stubEnv prompt sid))
     = Inr (JObj [(''sessionId'', sid),
                  (''output'', JObj [(''text'', JStr ''answer'')]),
                  (''citations'', JArr [])])"
  by (simp add: stubRetrieval_def retrievalInput_sessionId)

lemma promise_all_Nil: "promise_all [] = Fulfilled []"
  by (simp add: promise_all_def)

text \<open>
  Claim C1, as the specification states it: without a session identifier from the caller,
  the identifier that the upstream assigns is the \<open>sessionId\<close> field of the result. The
  function returns \<open>{ sessionId: sessionId, response: result }\<close> with its own argument, so
  against an upstream that assigns \<open>generated-1\<close> the field \<open>sessionId\<close> of the result is
  \<open>undefined\<close>.
\<close>

theorem invokeBedrockRetrieval_top_sessionId_counterexample:
  "stubRetrieval (JObj (retrievalInput stubEnv (JStr ''what is x?'') JUndefined))
     = Inr (JObj [(''sessionId'', JStr ''generated-1''),
                  (''output'', JObj [(''text'', JStr ''answer'')]),
                  (''citations'', JArr [])])
   \<and> invokeBedrockRetrieval stubRetrieval stubSigner stubEnv (JStr ''what is x?'') JUndefined
     = Inr (JObj [(''sessionId'', JUndefined),
                  (''response'',
                   JObj [(''sessionId'', JStr ''generated-1''),
                         (''response'',
                          JObj [(''output'', JObj [(''text'', JStr ''answer'')]),
                                (''citations'', JArr []),
                                (''guardrailAction'', JUndefined)])])])
   \<and> getProp (JObj [(''sessionId'', JUndefined),
                  (''response'',
                   JObj [(''sessionId'', JStr ''generated-1''),
                         (''response'',
                          JObj [(''output'', JObj [(''text'', JStr ''answer'')]),
                                (''citations'', JArr []),
                                (''guardrailAction'', JUndefined)])])]) ''sessionId''
     \<noteq> Inr (JStr ''generated-1'')"
proof -
  have "retrievalBody stubRetrieval stubSigner stubEnv (JStr ''what is x?'') JUndefined
     = Inr (JObj [(''sessionId'', JUndefined),
                  (''response'',
                   JObj [(''sessionId'', JStr ''generated-1''),
                         (''response'',
                          JObj [(''output'', JObj [(''text'', JStr ''answer'')]),
                                (''citations'', JArr []),
                                (''guardrailAction'', JUndefined)])])])"
    by (simp add: retrievalBody_def stubRetrieval_no_session promise_all_Nil)
  then show ?thesis
    by (simp add: invokeBedrockRetrieval_def stubRetrieval_no_session)
qed

text \<open>
  Claim C1, amended. Called with a session identifier that is \<open>undefined\<close> (or falsy),
  \<open>invokeBedrockRetrieval\<close> sends a request without the property \<open>sessionId\<close>. When the
  upstream replies and the citations resolve, the call returns; the field \<open>sessionId\<close> of
  the result is the caller's own argument, and the identifier assigned by the upstream is
  returned at \<open>response.sessionId\<close> of the result.
\<close>

theorem invokeBedrockRetrieval_without_session:
  assumes "\<not> truthy sessionId"
    and "send (JObj (retrievalInput env prompt sessionId)) = Inr response"
    and "optprop response ''citations'' = JArr cs"
    and "promise_all (map (parseCitation getSignedUrl) cs) = Fulfilled citations"
  shows "map_of (retrievalInput env prompt sessionId) ''sessionId'' = None
       \<and> (\<exists>result. invokeBedrockRetrieval send getSignedUrl env prompt sessionId = Inr result
             \<and> getProp result ''sessionId'' = Inr sessionId
             \<and> getPath result [''response'', ''sessionId''] = Inr (optprop response ''sessionId''))"
  using assms(1) retrievalBody_success [where send = send, OF assms(2-4)]
  by (simp add: retrievalInput_sessionId invokeBedrockRetrieval_def)

theorem invokeBedrockRetrieval_without_session_witness:
  "\<not> truthy JUndefined
   \<and> map_of (retrievalInput stubEnv (JStr ''what is x?'') JUndefined) ''sessionId'' = None
   \<and> (\<exists>result. invokeBedrockRetrieval stubRetrieval stubSigner stubEnv (JStr ''what is x?'') JUndefined
                  = Inr result
         \<and> getProp result ''sessionId'' = Inr JUndefined
         \<and> getPath result [''response'', ''sessionId''] = Inr (JStr ''generated-1''))"
proof -
  let ?response = "JObj [(''sessionId'', JStr ''generated-1''),
                         (''output'', JObj [(''text'', JStr ''answer'')]),
                         (''citations'', JArr [])]"
  have h1: "\<not> truthy JUndefined" by simp
  have h2: "stubRetrieval (JObj (retrievalInput stubEnv (JStr ''what is x?'') JUndefined)) = Inr ?response"
    by (rule stubRetrieval_no_session)
  have h3: "optprop ?response ''citations'' = JArr []" by simp
  have h4: "promise_all (map (parseCitation stubSigner) []) = Fulfilled []"
    by (simp add: promise_all_Nil)
  from invokeBedrockRetrieval_without_session [where send = stubRetrieval, OF h1 h2 h3 h4] h1
  show ?thesis by simp
qed

text \<open>
  Claim C2, as the specification states it: the returned value has the upstream's output
  text at \<open>response.output.text\<close>. The normalized object is wrapped once more, so the
  property \<open>response.output\<close> of the returned value is \<open>undefined\<close> and reading
  \<open>response.output.text\<close> throws.
\<close>

theorem invokeBedrockRetrieval_text_path_counterexample:
  "invokeBedrockRetrieval stubRetrieval stubSigner stubEnv (JStr ''tell me more'') (JStr ''s-2'')
     = Inr (JObj [(''sessionId'', JStr ''s-2''),
                  (''response'',
                   JObj [(''sessionId'', JStr ''s-2''),
                         (''response'',
                          JObj [(''output'', JObj [(''text'', JStr ''answer'')]),
                                (''citations'', JArr []),
                                (''guardrailAction'', JUndefined)])])])
   \<and> getPath (JObj [(''sessionId'', JStr ''s-2''),
                  (''response'',
                   JObj [(''sessionId'', JStr ''s-2''),
                         (''response'',
                          JObj [(''output'', JObj [(''text'', JStr ''answer'')]),
                                (''citations'', JArr []),
                                (''guardrailAction'', JUndefined)])])])
         [''response'', ''output''] = Inr JUndefined
   \<and> getPath (JObj [(''sessionId'', JStr ''s-2''),
                  (''response'',
                   JObj [(''sessionId'', JStr ''s-2''),
                         (''response'',
                          JObj [(''output'', JObj [(''text'', JStr ''answer'')]),
                                (''citations'', JArr []),
                                (''guardrailAction'', JUndefined)])])])
         [''response'', ''output'', ''text''] \<noteq> Inr (JStr ''answer'')"
proof -
  have s: "stubRetrieval (JObj (retrievalInput stubEnv (JStr ''tell me more'') (JStr ''s-2'')))
     = Inr (JObj [(''sessionId'', JStr ''s-2''),
                  (''output'', JObj [(''text'', JStr ''answer'')]),
                  (''citations'', JArr [])])"
    by (rule stubRetrieval_with_session) simp_all
  have "retrievalBody stubRetrieval stubSigner stubEnv (JStr ''tell me more'') (JStr ''s-2'')
     = Inr (JObj [(''sessionId'', JStr ''s-2''),
                  (''response'',
                   JObj [(''sessionId'', JStr ''s-2''),
                         (''response'',
                          JObj [(''output'', JObj [(''text'', JStr ''answer'')]),
                                (''citations'', JArr []),
                                (''guardrailAction'', JUndefined)])])])"
    by (simp add: retrievalBody_def s promise_all_Nil)
  then show ?thesis
    by (simp add: invokeBedrockRetrieval_def TypeError_def)
qed

text \<open>
  Claim C2, amended. \<open>invokeBedrockRetrieval\<close> succeeds exactly when the upstream replies
  with an array of citations that all resolve, and the value it returns is then
  \<open>{ sessionId, response: { sessionId, response: { output: { text }, citations,
  guardrailAction } } }\<close>: the outer \<open>sessionId\<close> is the caller's argument, the inner one
  the upstream's, there is one resolved citation for each citation of the reply, and the
  upstream's output text is at \<open>response.response.output.text\<close>.
\<close>

theorem invokeBedrockRetrieval_shape:
  "invokeBedrockRetrieval send getSignedUrl env prompt sessionId = Inr result
   \<longleftrightarrow> (\<exists>response cs citations.
          send (JObj (retrievalInput env prompt sessionId)) = Inr response
          \<and> optprop response ''citations'' = JArr cs
          \<and> promise_all (map (parseCitation getSignedUrl) cs) = Fulfilled citations
          \<and> length citations = length cs
          \<and> result =
              JObj [(''sessionId'', sessionId),
                    (''response'',
                     JObj [(''sessionId'', optprop response ''sessionId''),
                           (''response'',
                            JObj [(''output'', JObj [(''text'', optprop (optprop response ''output'') ''text'')]),
                                  (''citations'', JArr citations),
                                  (''guardrailAction'', optprop response ''guardrailAction'')])])]
          \<and> getPath result [''response'', ''response'', ''output'', ''text'']
              = Inr (optprop (optprop response ''output'') ''text''))"
  (is "?L \<longleftrightarrow> ?R")
proof
  assume ?L
  then have b: "retrievalBody send getSignedUrl env prompt sessionId = Inr result"
    by (simp add: invokeBedrockRetrieval_Inr)
  from retrievalBody_Inr [OF b] obtain response cs citations where
    s: "send (JObj (retrievalInput env prompt sessionId)) = Inr response"
    and c: "optprop response ''citations'' = JArr cs"
    and p: "promise_all (map (parseCitation getSignedUrl) cs) = Fulfilled citations"
    by blast
  from p have "map (parseCitation getSignedUrl) cs = map Fulfilled citations"
    by (simp add: promise_all_Fulfilled_iff)
  then have len: "length citations = length cs"
    by (metis length_map)
  from retrievalBody_success [where send = send, OF s c p] b
  have r: "result = JObj [(''sessionId'', sessionId),
                    (''response'',
                     JObj [(''sessionId'', optprop response ''sessionId''),
                           (''response'',
                            JObj [(''output'', JObj [(''text'', optprop (optprop response ''output'') ''text'')]),
                                  (''citations'', JArr citations),
                                  (''guardrailAction'', optprop response ''guardrailAction'')])])]"
    by simp
  have g: "getPath result [''response'', ''response'', ''output'', ''text'']
              = Inr (optprop (optprop response ''output'') ''text'')"
    unfolding r by simp
  from s c p len r g show ?R by blast
next
  assume ?R
  then obtain response cs citations where
    s: "send (JObj (retrievalInput env prompt sessionId)) = Inr response"
    and c: "optprop response ''citations'' = JArr cs"
    and p: "promise_all (map (parseCitation getSignedUrl) cs) = Fulfilled citations"
    and r: "result = JObj [(''sessionId'', sessionId),
                    (''response'',
                     JObj [(''sessionId'', optprop response ''sessionId''),
                           (''response'',
                            JObj [(''output'', JObj [(''text'', optprop (optprop response ''output'') ''text'')]),
                                  (''citations'', JArr citations),
                                  (''guardrailAction'', optprop response ''guardrailAction'')])])]"
    by blast
  from retrievalBody_success [where send = send, OF s c p] r show ?L
    by (simp add: invokeBedrockRetrieval_Inr)
qed

theorem invokeBedrockRetrieval_shape_witness:
  "invokeBedrockRetrieval stubRetrieval stubSigner stubEnv (JStr ''what is x?'') (JStr ''s-1'')
     = Inr (JObj [(''sessionId'', JStr ''s-1''),
                  (''response'',
                   JObj [(''sessionId'', JStr ''s-1''),
                         (''response'',
                          JObj [(''output'', JObj [(''text'', JStr ''answer'')]),
                                (''citations'', JArr []),
                                (''guardrailAction'', JUndefined)])])])"
proof -
  let ?response = "JObj [(''sessionId'', JStr ''s-1''),
                         (''output'', JObj [(''text'', JStr ''answer'')]),
                         (''citations'', JArr [])]"
  let ?result = "JObj [(''sessionId'', JStr ''s-1''),
                  (''response'',
                   JObj [(''sessionId'', JStr ''s-1''),
                         (''response'',
                          JObj [(''output'', JObj [(''text'', JStr ''answer'')]),
                                (''citations'', JArr []),
                                (''guardrailAction'', JUndefined)])])]"
  have s: "stubRetrieval (JObj (retrievalInput stubEnv (JStr ''what is x?'') (JStr ''s-1''))) = Inr ?response"
    by (rule stubRetrieval_with_session) simp_all
  have c: "optprop ?response ''citations'' = JArr []" by simp
  have p: "promise_all (map (parseCitation stubSigner) []) = Fulfilled []"
    by (simp add: promise_all_Nil)
  have r: "?result = JObj [(''sessionId'', JStr ''s-1''),
                    (''response'',
                     JObj [(''sessionId'', optprop ?response ''sessionId''),
                           (''response'',
                            JObj [(''output'', JObj [(''text'', optprop (optprop ?response ''output'') ''text'')]),
                                  (''citations'', JArr []),
                                  (''guardrailAction'', optprop ?response ''guardrailAction'')])])]"
    by simp
  have g: "getPath ?result [''response'', ''response'', ''output'', ''text'']
              = Inr (optprop (optprop ?response ''output'') ''text'')"
    by simp
  have l: "length ([] :: jsval list) = length ([] :: jsval list)" by simp
  have "\<exists>response cs citations.
          stubRetrieval (JObj (retrievalInput stubEnv (JStr ''what is x?'') (JStr ''s-1''))) = Inr response
          \<and> optprop response ''citations'' = JArr cs
          \<and> promise_all (map (parseCitation stubSigner) cs) = Fulfilled citations
          \<and> length citations = length cs
          \<and> ?result =
              JObj [(''sessionId'', JStr ''s-1''),
                    (''response'',
                     JObj [(''sessionId'', optprop response ''sessionId''),
                           (''response'',
                            JObj [(''output'', JObj [(''text'', optprop (optprop response ''output'') ''text'')]),
                                  (''citations'', JArr citations),
                                  (''guardrailAction'', optprop response ''guardrailAction'')])])]
          \<and> getPath ?result [''response'', ''response'', ''output'', ''text'']
              = Inr (optprop (optprop response ''output'') ''text'')"
    by (intro exI [of _ ?response] exI [of _ "[]"] conjI) (rule s c p l r g)+
  then show ?thesis
    by (rule invokeBedrockRetrieval_shape
               [where send = stubRetrieval and getSignedUrl = stubSigner and env = stubEnv
                  and prompt = "JStr ''what is x?''" and sessionId = "JStr ''s-1''"
                  and result = ?result, THEN iffD2])
qed

section \<open>Properties of the POST /retrieve handler\<close>

lemma sanitize_error_code: "sanitize v = Inl e \<Longrightarrow> err_code e = JUndefined"
  by (cases v) (auto simp: Error_def TypeError_def split: if_splits)

text \<open>
  Claim C10, as stated: for every body with a message and without \<open>session_id\<close> the
  handler applies the session sanitizer to \<open>undefined\<close>, which throws the \<open>TypeError\<close>
  behind the 500 response. The prompt sanitizer runs first: a message whose cleaned form
  has 2049 characters makes it throw \<open>Prompt is too long\<close>, the session sanitizer is not
  reached, and the 500 response carries that message.
\<close>

theorem retrieveHandler_prompt_error_counterexample:
  "map_of [(''message'', JStr (''  '' @ replicate 2049 (CHR ''A'') @ ''<>''))] ''session_id'' = None
   \<and> truthy (JStr (''  '' @ replicate 2049 (CHR ''A'') @ ''<>''))
   \<and> sanitize (JStr (''  '' @ replicate 2049 (CHR ''A'') @ ''<>'')) = Inl (Error ''Prompt is too long'')
   \<and> retrieveHandler stubRetrieval stubSigner stubEnv
        (JObj [(''message'', JStr (''  '' @ replicate 2049 (CHR ''A'') @ ''<>''))])
       = (Responded \<lparr>status = JNum 500, body = JStr ''Prompt is too long''\<rparr>, [])
   \<and> JStr ''Prompt is too long'' \<noteq> JStr ''Cannot read properties of undefined (reading 'replace')''"
proof -
  have a: "sanitizedPrompt (''  '' @ replicate 2049 (CHR ''A'') @ ''<>'') = replicate 2049 (CHR ''a'')"
    by (rule sanitizedPrompt_padded) simp
  have s: "sanitize (JStr (''  '' @ replicate 2049 (CHR ''A'') @ ''<>'')) = Inl (Error ''Prompt is too long'')"
    unfolding sanitize.simps a length_replicate by simp
  have t: "truthy (JStr (''  '' @ replicate 2049 (CHR ''A'') @ ''<>''))"
    by simp
  have g: "optprop (JObj [(''message'', JStr (''  '' @ replicate 2049 (CHR ''A'') @ ''<>''))]) ''message''
             = JStr (''  '' @ replicate 2049 (CHR ''A'') @ ''<>'')"
    by simp
  have c: "catchResponse (Error ''Prompt is too long'')
             = Responded \<lparr>status = JNum 500, body = JStr ''Prompt is too long''\<rparr>"
    by (simp add: catchResponse_def resStatus_def Error_def)
  have h: "retrieveHandler stubRetrieval stubSigner stubEnv
        (JObj [(''message'', JStr (''  '' @ replicate 2049 (CHR ''A'') @ ''<>''))])
       = (Responded \<lparr>status = JNum 500, body = JStr ''Prompt is too long''\<rparr>, [])"
    unfolding retrieveHandler_def g
    by (simp only: s t c sum.case Let_def if_False not_True_eq_False simp_thms jsval.distinct)
  from s t h show ?thesis by simp
qed

text \<open>
  Claim C10, amended. For every body with a truthy message and without \<open>session_id\<close>
  the handler answers with status 500 and never calls \<open>invokeBedrockRetrieval\<close>. When the
  prompt sanitizer accepts the message, the error is the \<open>TypeError\<close> that the session
  sanitizer throws on \<open>undefined\<close>; otherwise it is the prompt sanitizer's own error.
\<close>

theorem retrieveHandler_requires_session_id:
  assumes "map_of fs ''message'' = Some message"
    and "truthy message"
    and "map_of fs ''session_id'' = None"
  shows "\<exists>resp. retrieveHandler send getSignedUrl env (JObj fs) = (Responded resp, [])
           \<and> status resp = JNum 500
           \<and> (\<forall>p. sanitize message = Inr p \<longrightarrow>
                 sanitizeSessionID (optprop (JObj fs) ''session_id'')
                   = Inl (TypeError ''Cannot read properties of undefined (reading 'replace')'')
                 \<and> body resp = JStr ''Cannot read properties of undefined (reading 'replace')'')
           \<and> (\<forall>e. sanitize message = Inl e \<longrightarrow> body resp = JStr (err_message e))"
proof (cases "sanitize message")
  case (Inl e)
  then have "err_code e = JUndefined" by (rule sanitize_error_code)
  with Inl assms show ?thesis
    by (simp add: retrieveHandler_def catchResponse_def resStatus_def)
next
  case (Inr p)
  with assms show ?thesis
    by (simp add: retrieveHandler_def catchResponse_def resStatus_def TypeError_def)
qed

theorem retrieveHandler_requires_session_id_witness:
  "map_of [(''message'', JStr ''Hi <there>'')] ''message'' = Some (JStr ''Hi <there>'')
   \<and> truthy (JStr ''Hi <there>'')
   \<and> map_of [(''message'', JStr ''Hi <there>'')] ''session_id'' = None
   \<and> sanitize (JStr ''Hi <there>'') = Inr ''hi there''
   \<and> retrieveHandler stubRetrieval stubSigner stubEnv (JObj [(''message'', JStr ''Hi <there>'')])
       = (Responded \<lparr>status = JNum 500,
                      body = JStr ''Cannot read properties of undefined (reading 'replace')''\<rparr>, [])"
proof -
  have h1: "map_of [(''message'', JStr ''Hi <there>'')] ''message'' = Some (JStr ''Hi <there>'')"
    by simp
  have h2: "truthy (JStr ''Hi <there>'')" by simp
  have h3: "map_of [(''message'', JStr ''Hi <there>'')] ''session_id'' = None" by simp
  have h4: "sanitize (JStr ''Hi <there>'') = Inr ''hi there''" by code_simp
  from retrieveHandler_requires_session_id
         [where send = stubRetrieval and getSignedUrl = stubSigner and env = stubEnv, OF h1 h2 h3] h4
  obtain resp where
    "retrieveHandler stubRetrieval stubSigner stubEnv (JObj [(''message'', JStr ''Hi <there>'')])
       = (Responded resp, [])"
    "status resp = JNum 500"
    "body resp = JStr ''Cannot read properties of undefined (reading 'replace')''"
    by blast
  then have "retrieveHandler stubRetrieval stubSigner stubEnv (JObj [(''message'', JStr ''Hi <there>'')])
       = (Responded \<lparr>status = JNum 500,
                      body = JStr ''Cannot read properties of undefined (reading 'replace')''\<rparr>, [])"
    by (cases resp) simp
  with h1 h2 h3 h4 show ?thesis by (intro conjI)
qed

end
